theory Spec2Isabelle
  imports Main "HOL-Library.Word"
begin

section \<open>Values of the host language\<close>

text \<open>
  A string of the source language is a sequence of UTF-16 code units. The literals of
  \<^verbatim>\<open>main.ts\<close> are Russian; each is given below by its code units, with a
  transliteration beside it.
\<close>

type_synonym jstring = "16 word list"

definition ascii :: "string \<Rightarrow> jstring" where
  \<comment> \<open>the code units of a literal written with ASCII characters only\<close>
  "ascii s = map (\<lambda>c. of_nat (of_char c)) s"

function decimal :: "nat \<Rightarrow> jstring" where
  \<comment> \<open>what a template literal makes of a non-negative whole number\<close>
  "decimal n =
     (if n < 10 then [of_nat (48 + n)]
      else decimal (n div 10) @ [of_nat (48 + n mod 10)])"
  by pat_completeness auto
termination
  by (relation "measure id") auto

declare decimal.simps [simp del]

text \<open>
  A parsed JSON value. An object lists its fields, each key once (the parser keeps one
  value per key). Numbers play no part in the plugin beyond being neither null nor a
  string.
\<close>

datatype json =
    JNull
  | JBool bool
  | JNumber int
  | JString jstring
  | JArray "json list"
  | JObject "(jstring \<times> json) list"

fun get_message :: "json \<Rightarrow> json option" where
  \<comment> \<open>\<^verbatim>\<open>data?.message\<close>; \<open>None\<close> is \<^verbatim>\<open>undefined\<close>\<close>
  "get_message (JObject fields) = map_of fields (ascii ''message'')"
| "get_message _ = None"

section \<open>Literals of the plugin\<close>

definition msg_settings_missing :: jstring where
  \<comment> \<open>warning sign, "Ukazhi token i Agent ID v nastroikakh"\<close>
  "msg_settings_missing =
     [0x26A0, 0x20, 0x423, 0x43A, 0x430, 0x436, 0x438, 0x20, 0x442, 0x43E, 0x43A, 0x435,
      0x43D, 0x20, 0x438, 0x20, 0x41, 0x67, 0x65, 0x6E, 0x74, 0x20, 0x49, 0x44, 0x20, 0x432,
      0x20, 0x43D, 0x430, 0x441, 0x442, 0x440, 0x43E, 0x439, 0x43A, 0x430, 0x445]"

definition msg_no_editor :: jstring where
  \<comment> \<open>warning sign, "Net aktivnogo redaktora"\<close>
  "msg_no_editor =
     [0x26A0, 0x20, 0x41D, 0x435, 0x442, 0x20, 0x430, 0x43A, 0x442, 0x438, 0x432, 0x43D,
      0x43E, 0x433, 0x43E, 0x20, 0x440, 0x435, 0x434, 0x430, 0x43A, 0x442, 0x43E, 0x440, 0x430]"

definition placeholder_selection :: jstring where
  \<comment> \<open>"Chto sdelat' s vydelennym tekstom?"\<close>
  "placeholder_selection =
     [0x427, 0x442, 0x43E, 0x20, 0x441, 0x434, 0x435, 0x43B, 0x430, 0x442, 0x44C, 0x20,
      0x441, 0x20, 0x432, 0x44B, 0x434, 0x435, 0x43B, 0x435, 0x43D, 0x43D, 0x44B, 0x43C,
      0x20, 0x442, 0x435, 0x43A, 0x441, 0x442, 0x43E, 0x43C, 0x3F]"

definition placeholder_new_text :: jstring where
  \<comment> \<open>"Vvedite tekst dlya otpravki"\<close>
  "placeholder_new_text =
     [0x412, 0x432, 0x435, 0x434, 0x438, 0x442, 0x435, 0x20, 0x442, 0x435, 0x43A, 0x441,
      0x442, 0x20, 0x434, 0x43B, 0x44F, 0x20, 0x43E, 0x442, 0x43F, 0x440, 0x430, 0x432,
      0x43A, 0x438]"

definition default_instruction :: jstring where
  \<comment> \<open>"Obrabotai tekst"\<close>
  "default_instruction =
     [0x41E, 0x431, 0x440, 0x430, 0x431, 0x43E, 0x442, 0x430, 0x439, 0x20, 0x442, 0x435,
      0x43A, 0x441, 0x442]"

definition label_instruction :: jstring where
  \<comment> \<open>"Instruktsiya: ", the opening of the message template\<close>
  "label_instruction =
     [0x418, 0x43D, 0x441, 0x442, 0x440, 0x443, 0x43A, 0x446, 0x438, 0x44F, 0x3A, 0x20]"

definition label_text :: jstring where
  \<comment> \<open>"Tekst:" and a line feed, the template's piece before the text\<close>
  "label_text = [0x422, 0x435, 0x43A, 0x441, 0x442, 0x3A, 0xA]"

definition msg_generating :: jstring where
  \<comment> \<open>hourglass, "Generatsiya..."\<close>
  "msg_generating =
     [0x23F3, 0x20, 0x413, 0x435, 0x43D, 0x435, 0x440, 0x430, 0x446, 0x438, 0x44F, 0x2E,
      0x2E, 0x2E]"

definition msg_api_error :: jstring where
  \<comment> \<open>cross mark, "Oshibka API: "\<close>
  "msg_api_error =
     [0x274C, 0x20, 0x41E, 0x448, 0x438, 0x431, 0x43A, 0x430, 0x20, 0x41, 0x50, 0x49, 0x3A,
      0x20]"

definition msg_no_reply :: jstring where
  \<comment> \<open>cross mark, "Net otveta"\<close>
  "msg_no_reply =
     [0x274C, 0x20, 0x41D, 0x435, 0x442, 0x20, 0x43E, 0x442, 0x432, 0x435, 0x442, 0x430]"

definition msg_inserted :: jstring where
  \<comment> \<open>check mark, "Otvet vstavlen v zametku"\<close>
  "msg_inserted =
     [0x2705, 0x20, 0x41E, 0x442, 0x432, 0x435, 0x442, 0x20, 0x432, 0x441, 0x442, 0x430,
      0x432, 0x43B, 0x435, 0x43D, 0x20, 0x432, 0x20, 0x437, 0x430, 0x43C, 0x435, 0x442,
      0x43A, 0x443]"

definition msg_request_failed :: jstring where
  \<comment> \<open>cross mark, "Oshibka zaprosa ili taimaut (30 sekund)"\<close>
  "msg_request_failed =
     [0x274C, 0x20, 0x41E, 0x448, 0x438, 0x431, 0x43A, 0x430, 0x20, 0x437, 0x430, 0x43F,
      0x440, 0x43E, 0x441, 0x430, 0x20, 0x438, 0x43B, 0x438, 0x20, 0x442, 0x430, 0x439,
      0x43C, 0x430, 0x443, 0x442, 0x20, 0x28, 0x33, 0x30, 0x20, 0x441, 0x435, 0x43A, 0x443,
      0x43D, 0x434, 0x29]"

section \<open>The instruction modal\<close>

record InstructionModal =
  result :: "jstring option"
  placeholder :: jstring
  textarea_value :: jstring
  is_open :: bool

record KeyboardEvent =
  key :: jstring
  shiftKey :: bool

definition new_InstructionModal :: "jstring \<Rightarrow> InstructionModal" where
  "new_InstructionModal ph =
     \<lparr>result = None, placeholder = ph, textarea_value = [], is_open = False\<rparr>"

definition modal_open :: "InstructionModal \<Rightarrow> InstructionModal" where
  "modal_open m = m\<lparr>is_open := True\<rparr>"

definition modal_close :: "InstructionModal \<Rightarrow> InstructionModal" where
  "modal_close m = m\<lparr>is_open := False\<rparr>"

definition cancelBtn_onclick :: "InstructionModal \<Rightarrow> InstructionModal" where
  "cancelBtn_onclick m = modal_close (m\<lparr>result := None\<rparr>)"

definition sendBtn_onclick :: "InstructionModal \<Rightarrow> InstructionModal" where
  "sendBtn_onclick m = modal_close (m\<lparr>result := Some (textarea_value m)\<rparr>)"

definition textarea_keypress :: "KeyboardEvent \<Rightarrow> InstructionModal \<Rightarrow> InstructionModal" where
  "textarea_keypress e m =
     (if key e = ascii ''Enter'' \<and> shiftKey e then m
      else if key e = ascii ''Enter''
        then modal_close (m\<lparr>result := Some (textarea_value m)\<rparr>)
      else m)"

section \<open>The message sent to the agent\<close>

definition textToSend :: "jstring \<Rightarrow> jstring \<Rightarrow> jstring" where
  "textToSend selectedText instructionOrText =
     (if selectedText \<noteq> [] then selectedText else instructionOrText)"

definition instruction :: "jstring \<Rightarrow> jstring \<Rightarrow> jstring" where
  "instruction selectedText instructionOrText =
     (if selectedText \<noteq> [] then instructionOrText else default_instruction)"

definition message :: "jstring \<Rightarrow> jstring \<Rightarrow> jstring" where
  \<comment> \<open>the template literal: label, instruction, two line feeds, label, line feed, text\<close>
  "message instr txt = label_instruction @ instr @ [0xA, 0xA] @ label_text @ txt"

text \<open>
  The composition as the specification words it: an instruction block and a text block,
  each under its label, with a blank line between them.
\<close>

definition instruction_block :: "jstring \<Rightarrow> jstring" where
  "instruction_block instr = label_instruction @ instr"

definition text_block :: "jstring \<Rightarrow> jstring" where
  "text_block txt = label_text @ txt"

definition blank_line :: jstring where
  \<comment> \<open>the end of one line and an empty line after it\<close>
  "blank_line = [0xA, 0xA]"

definition spec_message :: "jstring \<Rightarrow> jstring \<Rightarrow> jstring" where
  "spec_message instr txt = instruction_block instr @ blank_line @ text_block txt"

fun lines_acc :: "jstring \<Rightarrow> jstring \<Rightarrow> jstring list" where
  "lines_acc cur [] = [rev cur]"
| "lines_acc cur (c # cs) =
     (if c = 0xA then rev cur # lines_acc [] cs else lines_acc (c # cur) cs)"

definition lines_of :: "jstring \<Rightarrow> jstring list" where
  \<comment> \<open>the lines of a string, split at each line feed\<close>
  "lines_of s = lines_acc [] s"

section \<open>The host: editor, notices, network, timers\<close>

text \<open>
  The editor belongs to the host application. It holds a text, whose lines are separated
  by line feeds, and one selection, whose two ends it keeps as offsets into the text. The
  plugin sees and gives positions as a line and a column, both counted from zero; the
  host turns an offset into a position and back. A line beyond the last stands for the
  end of the text and a column beyond the end of its line for the end of that line, and
  an offset beyond the text for its end. The four operations below are the ones the
  plugin calls.
\<close>

record EditorPosition =
  line :: nat
  ch :: nat

record editor =
  doc :: jstring
  sel_anchor :: nat
  sel_head :: nat

fun offsetToPos :: "jstring \<Rightarrow> nat \<Rightarrow> EditorPosition" where
  "offsetToPos [] n = \<lparr>line = 0, ch = 0\<rparr>"
| "offsetToPos (c # cs) 0 = \<lparr>line = 0, ch = 0\<rparr>"
| "offsetToPos (c # cs) (Suc n) =
     (let p = offsetToPos cs n
      in if c = 0xA then \<lparr>line = Suc (line p), ch = ch p\<rparr>
         else if line p = 0 then \<lparr>line = 0, ch = Suc (ch p)\<rparr>
         else p)"

fun offset_at :: "jstring \<Rightarrow> nat \<Rightarrow> nat \<Rightarrow> nat" where
  \<comment> \<open>the offset of a line and a column\<close>
  "offset_at [] l k = 0"
| "offset_at (c # cs) 0 0 = 0"
| "offset_at (c # cs) 0 (Suc k) = (if c = 0xA then 0 else Suc (offset_at cs 0 k))"
| "offset_at (c # cs) (Suc l) k =
     Suc (if c = 0xA then offset_at cs l k else offset_at cs (Suc l) k)"

definition posToOffset :: "jstring \<Rightarrow> EditorPosition \<Rightarrow> nat" where
  "posToOffset d p = offset_at d (line p) (ch p)"

definition getCursor_from :: "editor \<Rightarrow> EditorPosition" where
  "getCursor_from e = offsetToPos (doc e) (min (sel_anchor e) (sel_head e))"

definition getCursor_to :: "editor \<Rightarrow> EditorPosition" where
  "getCursor_to e = offsetToPos (doc e) (max (sel_anchor e) (sel_head e))"

definition getSelection :: "editor \<Rightarrow> jstring" where
  "getSelection e =
     take (max (sel_anchor e) (sel_head e) - min (sel_anchor e) (sel_head e))
       (drop (min (sel_anchor e) (sel_head e)) (doc e))"

definition setSelection :: "EditorPosition \<Rightarrow> EditorPosition \<Rightarrow> editor \<Rightarrow> editor" where
  "setSelection a h e =
     e\<lparr>sel_anchor := posToOffset (doc e) a, sel_head := posToOffset (doc e) h\<rparr>"

definition replaceSelection :: "jstring \<Rightarrow> editor \<Rightarrow> editor" where
  "replaceSelection s e =
     (let kept_left = take (min (sel_anchor e) (sel_head e)) (doc e);
          kept_right = drop (max (sel_anchor e) (sel_head e)) (doc e)
      in \<lparr>doc = kept_left @ s @ kept_right,
          sel_anchor = length kept_left + length s,
          sel_head = length kept_left + length s\<rparr>)"

datatype failure = NetworkFailure | TimeoutAbort | InvalidJson | HostError

definition replaceSelection_value ::
  "(json \<Rightarrow> jstring option) \<Rightarrow> json \<Rightarrow> editor \<Rightarrow> failure + editor" where
  \<comment> \<open>the call with whatever value the reply is: a string is inserted as it is; what the
      host makes of any other value is the parameter (the text it inserts, or \<open>None\<close>
      when it throws)\<close>
  "replaceSelection_value host_text v e =
     (case v of
        JString s \<Rightarrow> Inr (replaceSelection s e)
      | _ \<Rightarrow> (case host_text v of
                None \<Rightarrow> Inl HostError
              | Some s \<Rightarrow> Inr (replaceSelection s e)))"

record notice =
  notice_text :: jstring
  duration :: "nat option"
  hidden :: bool

record request =
  url :: jstring
  http_method :: jstring
  headers :: "(jstring \<times> jstring) list"
  body :: json
  signal :: nat

record timer =
  delay :: nat
  aborts :: nat
  cleared :: bool

record response =
  ok :: bool
  status :: nat
  json_body :: "failure + json"

record TimewebPluginSettings =
  token :: jstring
  agentId :: jstring

definition DEFAULT_SETTINGS :: TimewebPluginSettings where
  "DEFAULT_SETTINGS = \<lparr>token = [], agentId = []\<rparr>"

text \<open>
  What one invocation of the command can touch: the plugin's settings, the editor of the
  active view (if there is one), the notices on screen, the modals opened (each by its
  placeholder), the requests sent, the abort controllers created, the timers set and the
  error console. A notice, a controller and a timer are named by their position in their
  list. The \<open>body\<close> of a request is the object handed to \<^verbatim>\<open>JSON.stringify\<close>,
  its \<open>signal\<close> the controller whose signal is attached; a timer \<open>aborts\<close> a controller
  after \<open>delay\<close> milliseconds unless it is cleared. A \<open>duration\<close> of \<open>None\<close> is a notice
  created without one (the host's own expiry), \<open>Some 0\<close> a notice that stays until hidden.
\<close>

record world =
  settings :: TimewebPluginSettings
  activeView :: "editor option"
  notices :: "notice list"
  modals :: "jstring list"
  requests :: "request list"
  controllers :: nat
  timers :: "timer list"
  console :: "failure list"

text \<open>
  What the surroundings do during one invocation: the value of the modal's \<open>result\<close> when
  it has closed; what became of the editor during each of the three waits of the command
  (while the modal was open, while the request was under way, while the body of the
  response was read), for the user can go on editing during each of them; how the request
  ended (the promise rejects, by a network failure or by the abort, or resolves to a
  response whose body parses or does not); and what the host's editor makes of a value
  that is not a string.
\<close>

record env =
  modal_result :: "jstring option"
  modal_editor :: "editor \<Rightarrow> editor"
  fetch_result :: "failure + response"
  fetch_editor :: "editor \<Rightarrow> editor"
  json_editor :: "editor \<Rightarrow> editor"
  host_text :: "json \<Rightarrow> jstring option"

definition new_Notice :: "jstring \<Rightarrow> nat option \<Rightarrow> world \<Rightarrow> nat \<times> world" where
  "new_Notice t d w =
     (length (notices w),
      w\<lparr>notices := notices w @ [\<lparr>notice_text = t, duration = d, hidden = False\<rparr>]\<rparr>)"

definition Notice_hide :: "nat \<Rightarrow> world \<Rightarrow> world" where
  "Notice_hide i w =
     (if i < length (notices w)
      then w\<lparr>notices := (notices w)[i := (notices w ! i)\<lparr>hidden := True\<rparr>]\<rparr>
      else w)"

definition new_AbortController :: "world \<Rightarrow> nat \<times> world" where
  "new_AbortController w = (controllers w, w\<lparr>controllers := Suc (controllers w)\<rparr>)"

definition setTimeout_abort :: "nat \<Rightarrow> nat \<Rightarrow> world \<Rightarrow> nat \<times> world" where
  "setTimeout_abort controller ms w =
     (length (timers w),
      w\<lparr>timers := timers w @ [\<lparr>delay = ms, aborts = controller, cleared = False\<rparr>]\<rparr>)"

definition clearTimeout :: "nat \<Rightarrow> world \<Rightarrow> world" where
  "clearTimeout i w =
     (if i < length (timers w)
      then w\<lparr>timers := (timers w)[i := (timers w ! i)\<lparr>cleared := True\<rparr>]\<rparr>
      else w)"

definition console_error :: "failure \<Rightarrow> world \<Rightarrow> world" where
  "console_error err w = w\<lparr>console := console w @ [err]\<rparr>"

definition fetch :: "request \<Rightarrow> world \<Rightarrow> world" where
  "fetch req w = w\<lparr>requests := requests w @ [req]\<rparr>"

section \<open>The command\<close>

definition agent_request :: "TimewebPluginSettings \<Rightarrow> jstring \<Rightarrow> nat \<Rightarrow> request" where
  "agent_request s msg controller =
     \<lparr>url = ascii ''https://api.timeweb.cloud/api/v1/cloud-ai/agents/'' @ agentId s
              @ ascii ''/call'',
      http_method = ascii ''POST'',
      headers = [(ascii ''Authorization'', ascii ''Bearer '' @ token s),
                 (ascii ''Content-Type'', ascii ''application/json'')],
      body = JObject [(ascii ''message'', JString msg)],
      signal = controller\<rparr>"

definition reply_of :: "json \<Rightarrow> json" where
  \<comment> \<open>\<^verbatim>\<open>data?.message ?? fallback\<close>\<close>
  "reply_of data =
     (case get_message data of
        None \<Rightarrow> JString msg_no_reply
      | Some JNull \<Rightarrow> JString msg_no_reply
      | Some v \<Rightarrow> v)"

definition catch_block :: "failure \<Rightarrow> nat \<Rightarrow> world \<Rightarrow> world" where
  "catch_block err generationNotice w =
     snd (new_Notice msg_request_failed None
            (Notice_hide generationNotice (console_error err w)))"

definition try_block :: "env \<Rightarrow> editor \<Rightarrow> request \<Rightarrow> nat \<Rightarrow> world \<Rightarrow> world" where
  \<comment> \<open>\<open>editorInstance\<close> is the editor as it is when the block is entered; the world
      holds it as it is at each later moment\<close>
  "try_block env editorInstance req generationNotice w =
     (let after_fetch = fetch_editor env editorInstance;
          w1 = (fetch req w)\<lparr>activeView := Some after_fetch\<rparr>
      in
      case fetch_result env of
        Inl err \<Rightarrow> catch_block err generationNotice w1
      | Inr response \<Rightarrow>
          if \<not> ok response
          then snd (new_Notice (msg_api_error @ decimal (status response)) None
                      (Notice_hide generationNotice w1))
          else
            let after_json = json_editor env after_fetch;
                w2 = w1\<lparr>activeView := Some after_json\<rparr>
            in
            (case json_body response of
               Inl err \<Rightarrow> catch_block err generationNotice w2
             | Inr data \<Rightarrow>
                 (case replaceSelection_value (host_text env) (reply_of data) after_json of
                    Inl err \<Rightarrow> catch_block err generationNotice w2
                  | Inr edited \<Rightarrow>
                      snd (new_Notice msg_inserted (Some 3000)
                             (Notice_hide generationNotice
                                (w2\<lparr>activeView := Some edited\<rparr>))))))"

definition editorCallback :: "env \<Rightarrow> world \<Rightarrow> world" where
  "editorCallback env w =
     (if token (settings w) = [] \<or> agentId (settings w) = []
      then snd (new_Notice msg_settings_missing None w)
      else
        case activeView w of
          None \<Rightarrow> snd (new_Notice msg_no_editor None w)
        | Some editorInstance \<Rightarrow>
            let cursorStart = getCursor_from editorInstance;
                cursorEnd = getCursor_to editorInstance;
                selectedText = getSelection editorInstance;
                ph = (if selectedText \<noteq> [] then placeholder_selection
                      else placeholder_new_text);
                after_modal = modal_editor env editorInstance;
                w1 = w\<lparr>modals := modals w @ [ph], activeView := Some after_modal\<rparr>
            in
              (case modal_result env of
                 None \<Rightarrow> w1
               | Some instructionOrText \<Rightarrow>
                   if instructionOrText = [] then w1
                   else
                     let restored = setSelection cursorStart cursorEnd after_modal;
                         w2 = w1\<lparr>activeView := Some restored\<rparr>;
                         msg = message (instruction selectedText instructionOrText)
                                 (textToSend selectedText instructionOrText);
                         (generationNotice, w3) = new_Notice msg_generating (Some 0) w2;
                         (controller, w4) = new_AbortController w3;
                         (timeout, w5) = setTimeout_abort controller 30000 w4;
                         w6 = try_block env restored
                                (agent_request (settings w) msg controller)
                                generationNotice w5
                     in clearTimeout timeout w6))"

section \<open>Sample inputs\<close>

definition sample_settings :: TimewebPluginSettings where
  "sample_settings = \<lparr>token = ascii ''secret'', agentId = ascii ''agent-7''\<rparr>"

definition sample_editor :: editor where
  \<comment> \<open>the word "world" is selected\<close>
  "sample_editor = \<lparr>doc = ascii ''Hello world'', sel_anchor = 6, sel_head = 11\<rparr>"

definition sample_editor_cursor :: editor where
  \<comment> \<open>nothing is selected; the cursor stands after "Hello"\<close>
  "sample_editor_cursor = \<lparr>doc = ascii ''Hello world'', sel_anchor = 5, sel_head = 5\<rparr>"

definition sample_editor_lines :: editor where
  \<comment> \<open>two lines, "ab" and "cd"; the second line is selected\<close>
  "sample_editor_lines = \<lparr>doc = ascii ''ab'' @ [0xA] @ ascii ''cd'', sel_anchor = 3, sel_head = 5\<rparr>"

definition sample_world :: "TimewebPluginSettings \<Rightarrow> editor \<Rightarrow> world" where
  "sample_world s e =
     \<lparr>settings = s, activeView = Some e, notices = [], modals = [], requests = [],
      controllers = 0, timers = [], console = []\<rparr>"

definition sample_env :: "jstring option \<Rightarrow> failure + response \<Rightarrow> env" where
  \<comment> \<open>the modal leaves the cursor at the start of the text, nobody touches the editor
      afterwards, and the host throws on a value that is not a string\<close>
  "sample_env answer outcome =
     \<lparr>modal_result = answer,
      modal_editor = (\<lambda>e. e\<lparr>sel_anchor := 0, sel_head := 0\<rparr>),
      fetch_result = outcome,
      fetch_editor = (\<lambda>e. e),
      json_editor = (\<lambda>e. e),
      host_text = (\<lambda>v. None)\<rparr>"

definition typing_in_modal :: "editor \<Rightarrow> editor" where
  \<comment> \<open>while the modal is open, "XY" is put after the first two characters of the text\<close>
  "typing_in_modal e =
     \<lparr>doc = take 2 (doc e) @ ascii ''XY'' @ drop 2 (doc e), sel_anchor = 4, sel_head = 4\<rparr>"

definition select_hello :: "editor \<Rightarrow> editor" where
  \<comment> \<open>while the request is under way, the user selects the first five characters\<close>
  "select_hello e = e\<lparr>sel_anchor := 0, sel_head := 5\<rparr>"

definition sample_response :: "json \<Rightarrow> response" where
  "sample_response data = \<lparr>ok = True, status = 200, json_body = Inr data\<rparr>"

definition sample_response_500 :: response where
  "sample_response_500 = \<lparr>ok = False, status = 500, json_body = Inr (JObject [])\<rparr>"

definition sample_modal :: InstructionModal where
  "sample_modal =
     \<lparr>result = None, placeholder = placeholder_new_text, textarea_value = ascii ''Shorten'',
      is_open = True\<rparr>"

section \<open>Shared facts\<close>

lemmas host_defs = new_Notice_def Notice_hide_def new_AbortController_def setTimeout_abort_def
  clearTimeout_def console_error_def fetch_def

lemma lines_acc_line:
  "0xA \<notin> set a \<Longrightarrow> lines_acc cur (a @ 0xA # rest) = (rev cur @ a) # lines_acc [] rest"
  by (induction a arbitrary: cur) auto

lemma lines_of_line: "0xA \<notin> set a \<Longrightarrow> lines_of (a @ 0xA # rest) = a # lines_of rest"
  by (simp add: lines_of_def lines_acc_line)

lemma unat_digit: "n < 10 \<Longrightarrow> unat (of_nat (48 + n) :: 16 word) = 48 + n"
  by (simp add: unat_of_nat del: of_nat_add)

lemma decimal_value: "foldl (\<lambda>a d. 10 * a + (unat d - 48)) 0 (decimal n) = n"
proof (induction n rule: decimal.induct)
  case (1 n)
  show ?case
  proof (cases "n < 10")
    case True
    then show ?thesis
      by (subst decimal.simps) (simp add: unat_digit del: of_nat_add)
  next
    case False
    have "unat (of_nat (48 + n mod 10) :: 16 word) = 48 + n mod 10"
      by (rule unat_digit) simp
    with False "1.IH" show ?thesis
      by (subst decimal.simps) (simp del: of_nat_add)
  qed
qed

text \<open>The position of an offset names that offset again, clipped to the text.\<close>

lemma offset_at_offsetToPos:
  "offset_at d (line (offsetToPos d n)) (ch (offsetToPos d n)) = min n (length d)"
proof (induction d n rule: offsetToPos.induct)
  case (3 c cs n)
  then show ?case
    by (cases "line (offsetToPos cs n)") (auto simp add: Let_def)
qed simp_all

lemma posToOffset_offsetToPos: "posToOffset d (offsetToPos d n) = min n (length d)"
  by (simp add: posToOffset_def offset_at_offsetToPos)

lemma doc_setSelection: "doc (setSelection a h ed) = doc ed"
  by (simp add: setSelection_def)

lemma doc_replaceSelection:
  "doc (replaceSelection s ed) =
     take (min (sel_anchor ed) (sel_head ed)) (doc ed) @ s
       @ drop (max (sel_anchor ed) (sel_head ed)) (doc ed)"
  by (simp add: replaceSelection_def Let_def)

lemma doc_replace_restored:
  "doc (replaceSelection s (setSelection a h ed)) =
     take (min (posToOffset (doc ed) a) (posToOffset (doc ed) h)) (doc ed) @ s
       @ drop (max (posToOffset (doc ed) a) (posToOffset (doc ed) h)) (doc ed)"
  by (simp add: replaceSelection_def setSelection_def Let_def)

lemma doc_replace_restored_same_text:
  assumes "doc ed = doc e"
  shows "doc (replaceSelection s (setSelection (getCursor_from e) (getCursor_to e) ed)) =
     take (min (sel_anchor e) (sel_head e)) (doc e) @ s
       @ drop (max (sel_anchor e) (sel_head e)) (doc e)"
proof -
  let ?lo = "min (sel_anchor e) (sel_head e)" and ?hi = "max (sel_anchor e) (sel_head e)"
  let ?n = "length (doc e)"
  have "?lo \<le> ?hi"
    by simp
  then have "min (min ?lo ?n) (min ?hi ?n) = min ?lo ?n"
    "max (min ?lo ?n) (min ?hi ?n) = min ?hi ?n"
    by (simp_all add: min_def max_def)
  moreover have "take (min ?lo ?n) (doc e) = take ?lo (doc e)"
    "drop (min ?hi ?n) (doc e) = drop ?hi (doc e)"
    by (auto simp add: min_def max_def)
  ultimately show ?thesis
    using assms
    by (simp add: doc_replace_restored getCursor_from_def getCursor_to_def
        posToOffset_offsetToPos)
qed

lemma editorCallback_dispatch:
  assumes "token (settings w) \<noteq> []" "agentId (settings w) \<noteq> []" "activeView w = Some e"
    "modal_result env = Some t" "t \<noteq> []"
  shows "editorCallback env w =
     clearTimeout (length (timers w))
       (try_block env (setSelection (getCursor_from e) (getCursor_to e) (modal_editor env e))
          (agent_request (settings w)
             (message (instruction (getSelection e) t) (textToSend (getSelection e) t))
             (controllers w))
          (length (notices w))
          (w\<lparr>modals := modals w @ [if getSelection e \<noteq> [] then placeholder_selection
                                    else placeholder_new_text],
             activeView := Some (setSelection (getCursor_from e) (getCursor_to e) (modal_editor env e)),
             notices := notices w @ [\<lparr>notice_text = msg_generating, duration = Some 0, hidden = False\<rparr>],
             controllers := Suc (controllers w),
             timers := timers w @ [\<lparr>delay = 30000, aborts = controllers w, cleared = False\<rparr>]\<rparr>))"
  using assms by (simp add: editorCallback_def Let_def new_Notice_def new_AbortController_def setTimeout_abort_def)

lemma try_block_requests: "requests (try_block env ed req g w) = requests w @ [req]"
  by (simp add: try_block_def catch_block_def host_defs Let_def split: sum.splits)

lemma try_block_timers: "timers (try_block env ed req g w) = timers w"
  by (simp add: try_block_def catch_block_def host_defs Let_def split: sum.splits)

lemma try_block_rejected:
  "fetch_result env = Inl err \<Longrightarrow>
   try_block env ed req g w =
     catch_block err g ((fetch req w)\<lparr>activeView := Some (fetch_editor env ed)\<rparr>)"
  by (simp add: try_block_def Let_def)

lemma try_block_status:
  "fetch_result env = Inr r \<Longrightarrow> \<not> ok r \<Longrightarrow>
   try_block env ed req g w =
     snd (new_Notice (msg_api_error @ decimal (status r)) None
            (Notice_hide g ((fetch req w)\<lparr>activeView := Some (fetch_editor env ed)\<rparr>)))"
  by (simp add: try_block_def Let_def)

lemma try_block_body_rejected:
  "fetch_result env = Inr r \<Longrightarrow> ok r \<Longrightarrow> json_body r = Inl err \<Longrightarrow>
   try_block env ed req g w =
     catch_block err g
       ((fetch req w)\<lparr>activeView := Some (json_editor env (fetch_editor env ed))\<rparr>)"
  by (simp add: try_block_def Let_def fetch_def)

lemma try_block_host_rejected:
  "fetch_result env = Inr r \<Longrightarrow> ok r \<Longrightarrow> json_body r = Inr data \<Longrightarrow>
   replaceSelection_value (host_text env) (reply_of data) (json_editor env (fetch_editor env ed))
     = Inl err \<Longrightarrow>
   try_block env ed req g w =
     catch_block err g
       ((fetch req w)\<lparr>activeView := Some (json_editor env (fetch_editor env ed))\<rparr>)"
  by (simp add: try_block_def Let_def fetch_def)

lemma try_block_inserted:
  "fetch_result env = Inr r \<Longrightarrow> ok r \<Longrightarrow> json_body r = Inr data \<Longrightarrow>
   replaceSelection_value (host_text env) (reply_of data) (json_editor env (fetch_editor env ed))
     = Inr edited \<Longrightarrow>
   try_block env ed req g w =
     snd (new_Notice msg_inserted (Some 3000)
            (Notice_hide g ((fetch req w)\<lparr>activeView := Some edited\<rparr>)))"
  by (simp add: try_block_def Let_def fetch_def)

lemma reply_of_message:
  "get_message data = Some (JString s) \<Longrightarrow> reply_of data = JString s"
  "get_message data = None \<Longrightarrow> reply_of data = JString msg_no_reply"
  "get_message data = Some JNull \<Longrightarrow> reply_of data = JString msg_no_reply"
  "get_message data = Some v \<Longrightarrow> v \<noteq> JNull \<Longrightarrow> reply_of data = v"
  by (simp_all add: reply_of_def split: json.splits)

text \<open>The whole outcome of the command on each way the request can end.\<close>

lemma editorCallback_inserted:
  assumes "token (settings w) \<noteq> []" "agentId (settings w) \<noteq> []" "activeView w = Some e"
    and "modal_result env = Some t" "t \<noteq> []"
    and "fetch_result env = Inr r" "ok r" "json_body r = Inr data"
    and "replaceSelection_value (host_text env) (reply_of data)
           (json_editor env (fetch_editor env
              (setSelection (getCursor_from e) (getCursor_to e) (modal_editor env e))))
         = Inr edited"
  shows "editorCallback env w =
     w\<lparr>modals := modals w @ [if getSelection e \<noteq> [] then placeholder_selection
                              else placeholder_new_text],
       activeView := Some edited,
       notices := notices w @
         [\<lparr>notice_text = msg_generating, duration = Some 0, hidden = True\<rparr>,
          \<lparr>notice_text = msg_inserted, duration = Some 3000, hidden = False\<rparr>],
       requests := requests w @
         [agent_request (settings w)
            (message (instruction (getSelection e) t) (textToSend (getSelection e) t))
            (controllers w)],
       controllers := Suc (controllers w),
       timers := timers w @ [\<lparr>delay = 30000, aborts = controllers w, cleared = True\<rparr>]\<rparr>"
  using assms
  by (simp add: editorCallback_dispatch try_block_inserted host_defs nth_append)

lemma editorCallback_caught:
  assumes "token (settings w) \<noteq> []" "agentId (settings w) \<noteq> []" "activeView w = Some e"
    and "modal_result env = Some t" "t \<noteq> []"
    and "try_block env (setSelection (getCursor_from e) (getCursor_to e) (modal_editor env e))
           req g w' = catch_block err g ((fetch req w')\<lparr>activeView := Some live\<rparr>)"
    and "req = agent_request (settings w)
            (message (instruction (getSelection e) t) (textToSend (getSelection e) t))
            (controllers w)"
    and "g = length (notices w)"
    and "w' = w\<lparr>modals := modals w @ [if getSelection e \<noteq> [] then placeholder_selection
                                    else placeholder_new_text],
             activeView := Some (setSelection (getCursor_from e) (getCursor_to e) (modal_editor env e)),
             notices := notices w @ [\<lparr>notice_text = msg_generating, duration = Some 0, hidden = False\<rparr>],
             controllers := Suc (controllers w),
             timers := timers w @ [\<lparr>delay = 30000, aborts = controllers w, cleared = False\<rparr>]\<rparr>"
  shows "editorCallback env w =
     w\<lparr>modals := modals w @ [if getSelection e \<noteq> [] then placeholder_selection
                              else placeholder_new_text],
       activeView := Some live,
       notices := notices w @
         [\<lparr>notice_text = msg_generating, duration = Some 0, hidden = True\<rparr>,
          \<lparr>notice_text = msg_request_failed, duration = None, hidden = False\<rparr>],
       requests := requests w @ [req],
       controllers := Suc (controllers w),
       timers := timers w @ [\<lparr>delay = 30000, aborts = controllers w, cleared = True\<rparr>],
       console := console w @ [err]\<rparr>"
proof -
  have "editorCallback env w = clearTimeout (length (timers w)) (try_block env
      (setSelection (getCursor_from e) (getCursor_to e) (modal_editor env e)) req g w')"
    unfolding assms(7-9) using assms(1-5) by (rule editorCallback_dispatch)
  also have "\<dots> = clearTimeout (length (timers w))
      (catch_block err g ((fetch req w')\<lparr>activeView := Some live\<rparr>))"
    by (simp only: assms(6))
  finally show ?thesis
    by (simp add: assms(8,9) catch_block_def host_defs nth_append)
qed

lemma editorCallback_status:
  assumes "token (settings w) \<noteq> []" "agentId (settings w) \<noteq> []" "activeView w = Some e"
    and "modal_result env = Some t" "t \<noteq> []"
    and "fetch_result env = Inr r" "\<not> ok r"
  shows "editorCallback env w =
     w\<lparr>modals := modals w @ [if getSelection e \<noteq> [] then placeholder_selection
                              else placeholder_new_text],
       activeView := Some (fetch_editor env
          (setSelection (getCursor_from e) (getCursor_to e) (modal_editor env e))),
       notices := notices w @
         [\<lparr>notice_text = msg_generating, duration = Some 0, hidden = True\<rparr>,
          \<lparr>notice_text = msg_api_error @ decimal (status r), duration = None,
             hidden = False\<rparr>],
       requests := requests w @
         [agent_request (settings w)
            (message (instruction (getSelection e) t) (textToSend (getSelection e) t))
            (controllers w)],
       controllers := Suc (controllers w),
       timers := timers w @ [\<lparr>delay = 30000, aborts = controllers w, cleared = True\<rparr>]\<rparr>"
  using assms
  by (simp add: editorCallback_dispatch try_block_status host_defs nth_append)

text \<open>The sample inputs.\<close>

lemma sample_dispatch:
  "token sample_settings \<noteq> []"
  "agentId sample_settings \<noteq> []"
  "settings (sample_world s ed) = s"
  "activeView (sample_world s ed) = Some ed"
  "notices (sample_world s ed) = []"
  "requests (sample_world s ed) = []"
  "timers (sample_world s ed) = []"
  "controllers (sample_world s ed) = 0"
  "console (sample_world s ed) = []"
  "modal_result (sample_env answer outcome) = answer"
  "fetch_result (sample_env answer outcome) = outcome"
  "modal_editor (sample_env answer outcome) = (\<lambda>e. e\<lparr>sel_anchor := 0, sel_head := 0\<rparr>)"
  "fetch_editor (sample_env answer outcome) = (\<lambda>e. e)"
  "json_editor (sample_env answer outcome) = (\<lambda>e. e)"
  "host_text (sample_env answer outcome) = (\<lambda>v. None)"
  "ascii ''Shorten'' \<noteq> []"
  by (simp_all add: sample_world_def sample_settings_def sample_env_def ascii_def)

lemma sample_selection:
  "getSelection sample_editor = ascii ''world''"
  "getSelection sample_editor_cursor = []"
  "getSelection sample_editor_lines = ascii ''cd''"
  "getCursor_from sample_editor = \<lparr>line = 0, ch = 6\<rparr>"
  "getCursor_to sample_editor = \<lparr>line = 0, ch = 11\<rparr>"
  "getCursor_from sample_editor_cursor = \<lparr>line = 0, ch = 5\<rparr>"
  "getCursor_to sample_editor_cursor = \<lparr>line = 0, ch = 5\<rparr>"
  "getCursor_from sample_editor_lines = \<lparr>line = Suc 0, ch = 0\<rparr>"
  "getCursor_to sample_editor_lines = \<lparr>line = Suc 0, ch = 2\<rparr>"
  by code_simp+

lemma sample_restored:
  "setSelection \<lparr>line = 0, ch = 6\<rparr> \<lparr>line = 0, ch = 11\<rparr>
     (sample_editor\<lparr>sel_anchor := 0, sel_head := 0\<rparr>) = sample_editor"
  "setSelection \<lparr>line = 0, ch = 5\<rparr> \<lparr>line = 0, ch = 5\<rparr>
     (sample_editor_cursor\<lparr>sel_anchor := 0, sel_head := 0\<rparr>) = sample_editor_cursor"
  "setSelection \<lparr>line = Suc 0, ch = 0\<rparr> \<lparr>line = Suc 0, ch = 2\<rparr> (typing_in_modal sample_editor_lines)
     = \<lparr>doc = ascii ''abXY'' @ [0xA] @ ascii ''cd'', sel_anchor = 5, sel_head = 7\<rparr>"
  by code_simp+

lemma sample_edits:
  "replaceSelection s sample_editor =
     \<lparr>doc = ascii ''Hello '' @ s, sel_anchor = 6 + length s, sel_head = 6 + length s\<rparr>"
  "replaceSelection s \<lparr>doc = ascii ''abXY'' @ [0xA] @ ascii ''cd'', sel_anchor = 5, sel_head = 7\<rparr> =
     \<lparr>doc = ascii ''abXY'' @ [0xA] @ s, sel_anchor = 5 + length s, sel_head = 5 + length s\<rparr>"
  "replaceSelection s (select_hello sample_editor) =
     \<lparr>doc = s @ ascii '' world'', sel_anchor = length s, sel_head = length s\<rparr>"
  by (simp_all add: replaceSelection_def sample_editor_def select_hello_def ascii_def Let_def)

lemma sample_inserted:
  assumes "env = (sample_env (Some (ascii ''Shorten'')) (Inr (sample_response data)))
                   \<lparr>fetch_editor := during\<rparr>"
    and "reply_of data = JString s"
  shows "activeView (editorCallback env (sample_world sample_settings sample_editor)) =
           Some (replaceSelection s (during sample_editor))"
proof -
  let ?w = "sample_world sample_settings sample_editor"
  have "token (settings ?w) \<noteq> []" "agentId (settings ?w) \<noteq> []"
    "activeView ?w = Some sample_editor" "modal_result env = Some (ascii ''Shorten'')"
    "ascii ''Shorten'' \<noteq> []" "fetch_result env = Inr (sample_response data)"
    "ok (sample_response data)" "json_body (sample_response data) = Inr data"
    "replaceSelection_value (host_text env) (reply_of data)
       (json_editor env (fetch_editor env
          (setSelection (getCursor_from sample_editor) (getCursor_to sample_editor)
             (modal_editor env sample_editor))))
     = Inr (replaceSelection s (during sample_editor))"
    by (simp_all add: assms sample_dispatch sample_response_def sample_selection sample_restored
        replaceSelection_value_def)
  from editorCallback_inserted [OF this] show ?thesis
    by simp
qed

section \<open>The composed message and the modal\<close>

text \<open>
  C8. For every instruction and every text, the composed message is the instruction under
  its label, then a blank line, then the text under its label: the template of the source
  and the composition in the specification's words are the same string, and when the
  instruction has no line feed of its own, the lines of the message are the instruction
  line, one empty line, and the lines of the text block.
\<close>

theorem message_blocks:
  "message instr txt = instruction_block instr @ blank_line @ text_block txt
   \<and> message instr txt = spec_message instr txt
   \<and> (0xA \<notin> set instr \<longrightarrow>
        lines_of (message instr txt) = instruction_block instr # [] # lines_of (text_block txt))"
proof -
  have eq: "message instr txt = instruction_block instr @ blank_line @ text_block txt"
    by (simp add: message_def instruction_block_def blank_line_def text_block_def)
  have "lines_of (message instr txt) = instruction_block instr # [] # lines_of (text_block txt)"
    if nl: "0xA \<notin> set instr"
  proof -
    have "0xA \<notin> set (instruction_block instr)"
      using nl by (simp add: instruction_block_def label_instruction_def)
    then have "lines_of (instruction_block instr @ 0xA # ([] @ 0xA # text_block txt))
               = instruction_block instr # lines_of ([] @ 0xA # text_block txt)"
      by (rule lines_of_line)
    moreover have "lines_of ([] @ 0xA # text_block txt) = [] # lines_of (text_block txt)"
      by (rule lines_of_line) simp
    ultimately show ?thesis
      by (simp add: eq blank_line_def)
  qed
  with eq show ?thesis
    by (simp add: spec_message_def)
qed

theorem message_blocks_witness:
  "0xA \<notin> set (ascii ''Shorten'')
   \<and> lines_of (message (ascii ''Shorten'') (ascii ''one'')) =
       [label_instruction @ ascii ''Shorten'', [], take 6 label_text, ascii ''one'']"
proof -
  have nl: "0xA \<notin> set (ascii ''Shorten'')"
    by (simp add: ascii_def)
  with message_blocks [of "ascii ''Shorten''" "ascii ''one''"]
  have "lines_of (message (ascii ''Shorten'') (ascii ''one'')) =
          instruction_block (ascii ''Shorten'') # [] # lines_of (text_block (ascii ''one''))"
    by blast
  moreover have "lines_of (text_block (ascii ''one'')) = [take 6 label_text, ascii ''one'']"
    by (simp add: text_block_def label_text_def lines_of_def ascii_def)
  ultimately show ?thesis
    using nl by (simp add: instruction_block_def)
qed

text \<open>
  C9. In the modal's key handler, Enter with the shift key held leaves the modal as it
  is (the result is not set, the modal stays open), and Enter without the shift key
  sets the result to the current value of the text input and closes the modal.
\<close>

theorem textarea_keypress_enter:
  assumes "key e = ascii ''Enter''"
  shows "(shiftKey e \<longrightarrow> textarea_keypress e m = m)
       \<and> (\<not> shiftKey e \<longrightarrow>
            textarea_keypress e m = m\<lparr>result := Some (textarea_value m), is_open := False\<rparr>)"
  using assms by (simp add: textarea_keypress_def modal_close_def)

theorem textarea_keypress_enter_witness:
  "textarea_keypress \<lparr>key = ascii ''Enter'', shiftKey = True\<rparr> sample_modal = sample_modal
   \<and> result (textarea_keypress \<lparr>key = ascii ''Enter'', shiftKey = False\<rparr> sample_modal)
       = Some (ascii ''Shorten'')
   \<and> \<not> is_open (textarea_keypress \<lparr>key = ascii ''Enter'', shiftKey = False\<rparr> sample_modal)
   \<and> is_open sample_modal \<and> result sample_modal = None"
  using textarea_keypress_enter [of "\<lparr>key = ascii ''Enter'', shiftKey = True\<rparr>" sample_modal]
    textarea_keypress_enter [of "\<lparr>key = ascii ''Enter'', shiftKey = False\<rparr>" sample_modal]
  by (simp add: sample_modal_def)

section \<open>Aborting before the request\<close>

text \<open>
  C4. Whenever the token or the agent identifier in the settings is the empty string,
  the command shows exactly one warning notice and does nothing else: no request is
  sent, and the editor and the settings stay as they are.
\<close>

theorem settings_missing_warns:
  assumes "token (settings w) = [] \<or> agentId (settings w) = []"
  shows "editorCallback env w =
           w\<lparr>notices := notices w @
                [\<lparr>notice_text = msg_settings_missing, duration = None, hidden = False\<rparr>]\<rparr>
       \<and> requests (editorCallback env w) = requests w
       \<and> activeView (editorCallback env w) = activeView w
       \<and> settings (editorCallback env w) = settings w
       \<and> length (notices (editorCallback env w)) = Suc (length (notices w))"
  using assms by (auto simp add: editorCallback_def new_Notice_def)

theorem settings_missing_warns_witness:
  "token (settings (sample_world (sample_settings\<lparr>token := []\<rparr>) sample_editor)) = []
   \<and> agentId (settings (sample_world (sample_settings\<lparr>agentId := []\<rparr>) sample_editor)) = []
   \<and> notices (editorCallback (sample_env (Some (ascii ''Shorten'')) (Inr (sample_response JNull)))
                (sample_world (sample_settings\<lparr>token := []\<rparr>) sample_editor))
       = [\<lparr>notice_text = msg_settings_missing, duration = None, hidden = False\<rparr>]
   \<and> requests (editorCallback (sample_env (Some (ascii ''Shorten'')) (Inr (sample_response JNull)))
                (sample_world (sample_settings\<lparr>token := []\<rparr>) sample_editor)) = []
   \<and> editorCallback (sample_env (Some (ascii ''Shorten'')) (Inr (sample_response JNull)))
                (sample_world (sample_settings\<lparr>agentId := []\<rparr>) sample_editor)
       = (sample_world (sample_settings\<lparr>agentId := []\<rparr>) sample_editor)
           \<lparr>notices := [\<lparr>notice_text = msg_settings_missing, duration = None, hidden = False\<rparr>]\<rparr>
   \<and> editorCallback (sample_env (Some (ascii ''Shorten'')) (Inr (sample_response JNull)))
                (sample_world DEFAULT_SETTINGS sample_editor)
       = (sample_world DEFAULT_SETTINGS sample_editor)
           \<lparr>notices := [\<lparr>notice_text = msg_settings_missing, duration = None, hidden = False\<rparr>]\<rparr>"
  using settings_missing_warns
      [of "sample_world (sample_settings\<lparr>token := []\<rparr>) sample_editor"
          "sample_env (Some (ascii ''Shorten'')) (Inr (sample_response JNull))"]
    settings_missing_warns
      [of "sample_world (sample_settings\<lparr>agentId := []\<rparr>) sample_editor"
          "sample_env (Some (ascii ''Shorten'')) (Inr (sample_response JNull))"]
    settings_missing_warns
      [of "sample_world DEFAULT_SETTINGS sample_editor"
          "sample_env (Some (ascii ''Shorten'')) (Inr (sample_response JNull))"]
  by (simp add: sample_world_def sample_settings_def DEFAULT_SETTINGS_def)

text \<open>
  C3. Whenever the modal closes with no result or with the empty string (a cancelled or
  an empty submission), the command stops silently: the editor is left exactly as the
  modal left it (the captured selection is not restored), no request is sent and no
  notice is shown.
\<close>

theorem modal_cancelled_aborts:
  assumes "token (settings w) \<noteq> []" "agentId (settings w) \<noteq> []" "activeView w = Some e"
    and "modal_result env = None \<or> modal_result env = Some []"
  shows "editorCallback env w =
           w\<lparr>modals := modals w @ [if getSelection e \<noteq> [] then placeholder_selection
                                    else placeholder_new_text],
             activeView := Some (modal_editor env e)\<rparr>
       \<and> activeView (editorCallback env w) = Some (modal_editor env e)
       \<and> requests (editorCallback env w) = requests w
       \<and> notices (editorCallback env w) = notices w
       \<and> timers (editorCallback env w) = timers w"
  using assms by (auto simp add: editorCallback_def Let_def)

theorem modal_cancelled_aborts_witness:
  "result (cancelBtn_onclick sample_modal) = None
   \<and> result (sendBtn_onclick (modal_open (new_InstructionModal placeholder_selection))) = Some []
   \<and> editorCallback (sample_env (result (cancelBtn_onclick sample_modal))
                        (Inr (sample_response JNull)))
        (sample_world sample_settings sample_editor)
       = (sample_world sample_settings sample_editor)
           \<lparr>modals := [placeholder_selection],
             activeView := Some (sample_editor\<lparr>sel_anchor := 0, sel_head := 0\<rparr>)\<rparr>
   \<and> editorCallback
        (sample_env (result (sendBtn_onclick (modal_open (new_InstructionModal placeholder_selection))))
           (Inr (sample_response JNull)))
        (sample_world sample_settings sample_editor)
       = (sample_world sample_settings sample_editor)
           \<lparr>modals := [placeholder_selection],
             activeView := Some (sample_editor\<lparr>sel_anchor := 0, sel_head := 0\<rparr>)\<rparr>
   \<and> setSelection \<lparr>line = 0, ch = 6\<rparr> \<lparr>line = 0, ch = 11\<rparr>
         (sample_editor\<lparr>sel_anchor := 0, sel_head := 0\<rparr>)
       \<noteq> sample_editor\<lparr>sel_anchor := 0, sel_head := 0\<rparr>"
proof -
  let ?w = "sample_world sample_settings sample_editor"
  have cancel: "result (cancelBtn_onclick sample_modal) = None"
    and empty: "result (sendBtn_onclick (modal_open (new_InstructionModal placeholder_selection)))
                = Some []"
    by (simp_all add: cancelBtn_onclick_def sendBtn_onclick_def modal_close_def modal_open_def
        new_InstructionModal_def)
  have pre: "token (settings ?w) \<noteq> []" "agentId (settings ?w) \<noteq> []"
    "activeView ?w = Some sample_editor"
    by (simp_all add: sample_dispatch)
  have closed: "modal_result (sample_env None outcome) = None
                \<or> modal_result (sample_env None outcome) = Some []"
    "modal_result (sample_env (Some []) outcome) = None
                \<or> modal_result (sample_env (Some []) outcome) = Some []" for outcome
    by (simp_all add: sample_dispatch)
  have moved: "setSelection \<lparr>line = 0, ch = 6\<rparr> \<lparr>line = 0, ch = 11\<rparr>
         (sample_editor\<lparr>sel_anchor := 0, sel_head := 0\<rparr>)
       \<noteq> sample_editor\<lparr>sel_anchor := 0, sel_head := 0\<rparr>"
    by (simp only: sample_restored) (simp add: sample_editor_def)
  from modal_cancelled_aborts [OF pre closed(1)] modal_cancelled_aborts [OF pre closed(2)]
  show ?thesis
    using moved
    by (simp add: cancel empty sample_dispatch sample_selection)
       (simp add: sample_world_def ascii_def)
qed

section \<open>The request\<close>

text \<open>
  C1. Whenever the command gets as far as sending the request: if the captured selection
  is not empty, the message sent has the selection as its text and the modal's result as
  its instruction; if the captured selection is empty, it has the fixed default
  instruction and the modal's result as its text.
\<close>

theorem outgoing_message_sections:
  assumes "token (settings w) \<noteq> []" "agentId (settings w) \<noteq> []" "activeView w = Some e"
    and "modal_result env = Some t" "t \<noteq> []"
  shows "map body (requests (editorCallback env w)) =
           map body (requests w) @
           [JObject [(ascii ''message'',
              JString (if getSelection e \<noteq> [] then message t (getSelection e)
                       else message default_instruction t))]]"
  using assms
  by (simp add: editorCallback_dispatch try_block_requests clearTimeout_def agent_request_def
      instruction_def textToSend_def)

theorem outgoing_message_sections_witness:
  "map body (requests (editorCallback (sample_env (Some (ascii ''Shorten'')) (Inl NetworkFailure))
                         (sample_world sample_settings sample_editor)))
     = [JObject [(ascii ''message'',
          JString (label_instruction @ ascii ''Shorten'' @ [0xA, 0xA] @ label_text @ ascii ''world''))]]
   \<and> map body (requests (editorCallback (sample_env (Some (ascii ''Shorten'')) (Inl NetworkFailure))
                         (sample_world sample_settings sample_editor_cursor)))
     = [JObject [(ascii ''message'',
          JString (label_instruction @ default_instruction @ [0xA, 0xA] @ label_text
                   @ ascii ''Shorten''))]]"
  using outgoing_message_sections
      [of "sample_world sample_settings sample_editor" sample_editor
          "sample_env (Some (ascii ''Shorten'')) (Inl NetworkFailure)" "ascii ''Shorten''"]
    outgoing_message_sections
      [of "sample_world sample_settings sample_editor_cursor" sample_editor_cursor
          "sample_env (Some (ascii ''Shorten'')) (Inl NetworkFailure)" "ascii ''Shorten''"]
  by (simp add: sample_dispatch sample_selection message_def) (simp add: ascii_def)

text \<open>
  C7. Every request the command sends is a POST to the agent-call address holding the
  configured agent identifier, with the header Authorization set to "Bearer " and the
  token, the header Content-Type set to application/json, a body whose one field, message,
  is the composed message, and the signal of a controller that a timer of 30000
  milliseconds aborts; the timer is pending while the request runs and is cleared
  afterwards.
\<close>

theorem dispatched_request:
  assumes "token (settings w) \<noteq> []" "agentId (settings w) \<noteq> []" "activeView w = Some e"
    and "modal_result env = Some t" "t \<noteq> []"
  shows "\<exists>req ed g w'.
           editorCallback env w = clearTimeout (length (timers w)) (try_block env ed req g w')
         \<and> requests (editorCallback env w) = requests w @ [req]
         \<and> url req = ascii ''https://api.timeweb.cloud/api/v1/cloud-ai/agents/''
                        @ agentId (settings w) @ ascii ''/call''
         \<and> http_method req = ascii ''POST''
         \<and> headers req = [(ascii ''Authorization'', ascii ''Bearer '' @ token (settings w)),
                           (ascii ''Content-Type'', ascii ''application/json'')]
         \<and> body req = JObject [(ascii ''message'',
              JString (message (instruction (getSelection e) t) (textToSend (getSelection e) t)))]
         \<and> timers w' = timers w @ [\<lparr>delay = 30000, aborts = signal req, cleared = False\<rparr>]
         \<and> timers (editorCallback env w) =
             timers w @ [\<lparr>delay = 30000, aborts = signal req, cleared = True\<rparr>]"
proof -
  let ?req = "agent_request (settings w)
     (message (instruction (getSelection e) t) (textToSend (getSelection e) t)) (controllers w)"
  have run: "editorCallback env w =
     clearTimeout (length (timers w))
       (try_block env (setSelection (getCursor_from e) (getCursor_to e) (modal_editor env e))
          ?req (length (notices w))
          (w\<lparr>modals := modals w @ [if getSelection e \<noteq> [] then placeholder_selection
                                    else placeholder_new_text],
             activeView := Some (setSelection (getCursor_from e) (getCursor_to e) (modal_editor env e)),
             notices := notices w @ [\<lparr>notice_text = msg_generating, duration = Some 0, hidden = False\<rparr>],
             controllers := Suc (controllers w),
             timers := timers w @ [\<lparr>delay = 30000, aborts = controllers w, cleared = False\<rparr>]\<rparr>))"
    (is "_ = clearTimeout _ (try_block env ?ed ?req ?g ?w')")
    using assms by (rule editorCallback_dispatch)
  have "requests (editorCallback env w) = requests w @ [?req]"
    by (simp add: run try_block_requests clearTimeout_def)
  moreover have "timers ?w' = timers w @ [\<lparr>delay = 30000, aborts = signal ?req, cleared = False\<rparr>]"
    by (simp add: agent_request_def)
  moreover have "timers (editorCallback env w) =
      timers w @ [\<lparr>delay = 30000, aborts = signal ?req, cleared = True\<rparr>]"
    by (simp add: run try_block_timers clearTimeout_def agent_request_def)
  moreover have "url ?req = ascii ''https://api.timeweb.cloud/api/v1/cloud-ai/agents/''
                        @ agentId (settings w) @ ascii ''/call''"
    "http_method ?req = ascii ''POST''"
    "headers ?req = [(ascii ''Authorization'', ascii ''Bearer '' @ token (settings w)),
                           (ascii ''Content-Type'', ascii ''application/json'')]"
    "body ?req = JObject [(ascii ''message'',
              JString (message (instruction (getSelection e) t) (textToSend (getSelection e) t)))]"
    by (simp_all add: agent_request_def)
  ultimately show ?thesis
    using run by blast
qed

theorem dispatched_request_witness:
  "map url (requests (editorCallback (sample_env (Some (ascii ''Shorten'')) (Inl TimeoutAbort))
                        (sample_world sample_settings sample_editor)))
     = [ascii ''https://api.timeweb.cloud/api/v1/cloud-ai/agents/agent-7/call'']
   \<and> map http_method (requests (editorCallback (sample_env (Some (ascii ''Shorten'')) (Inl TimeoutAbort))
                        (sample_world sample_settings sample_editor))) = [ascii ''POST'']
   \<and> map headers (requests (editorCallback (sample_env (Some (ascii ''Shorten'')) (Inl TimeoutAbort))
                        (sample_world sample_settings sample_editor)))
     = [[(ascii ''Authorization'', ascii ''Bearer secret''),
         (ascii ''Content-Type'', ascii ''application/json'')]]
   \<and> map delay (timers (editorCallback (sample_env (Some (ascii ''Shorten'')) (Inl TimeoutAbort))
                        (sample_world sample_settings sample_editor))) = [30000]
   \<and> map aborts (timers (editorCallback (sample_env (Some (ascii ''Shorten'')) (Inl TimeoutAbort))
                        (sample_world sample_settings sample_editor)))
     = map signal (requests (editorCallback (sample_env (Some (ascii ''Shorten'')) (Inl TimeoutAbort))
                        (sample_world sample_settings sample_editor)))"
proof -
  let ?env = "sample_env (Some (ascii ''Shorten'')) (Inl TimeoutAbort)"
  let ?w = "sample_world sample_settings sample_editor"
  have "token (settings ?w) \<noteq> []" "agentId (settings ?w) \<noteq> []"
    "activeView ?w = Some sample_editor" "modal_result ?env = Some (ascii ''Shorten'')"
    "ascii ''Shorten'' \<noteq> []"
    by (simp_all add: sample_dispatch)
  from dispatched_request [OF this] obtain req where
    "requests (editorCallback ?env ?w) = requests ?w @ [req]"
    "url req = ascii ''https://api.timeweb.cloud/api/v1/cloud-ai/agents/''
                 @ agentId (settings ?w) @ ascii ''/call''"
    "http_method req = ascii ''POST''"
    "headers req = [(ascii ''Authorization'', ascii ''Bearer '' @ token (settings ?w)),
                    (ascii ''Content-Type'', ascii ''application/json'')]"
    "timers (editorCallback ?env ?w) =
       timers ?w @ [\<lparr>delay = 30000, aborts = signal req, cleared = True\<rparr>]"
    by blast
  then show ?thesis
    by (simp add: sample_dispatch sample_settings_def ascii_def)
qed

section \<open>How the request ends\<close>

text \<open>
  C5. Whenever the response does not have a success status, the in-progress notice is
  hidden, an error notice ending in the decimal digits of the status code is shown, no
  second request is sent, and the command does not change the text of the document: the
  editor is left as the surroundings left it after the selection was restored.
\<close>

theorem api_error_status:
  assumes "token (settings w) \<noteq> []" "agentId (settings w) \<noteq> []" "activeView w = Some e"
    and "modal_result env = Some t" "t \<noteq> []"
    and "fetch_result env = Inr r" "\<not> ok r"
  shows "notices (editorCallback env w) =
           notices w @
           [\<lparr>notice_text = msg_generating, duration = Some 0, hidden = True\<rparr>,
            \<lparr>notice_text = msg_api_error @ decimal (status r), duration = None, hidden = False\<rparr>]
       \<and> foldl (\<lambda>a d. 10 * a + (unat d - 48)) 0 (decimal (status r)) = status r
       \<and> length (requests (editorCallback env w)) = Suc (length (requests w))
       \<and> activeView (editorCallback env w) =
           Some (fetch_editor env
                   (setSelection (getCursor_from e) (getCursor_to e) (modal_editor env e)))
       \<and> doc (setSelection (getCursor_from e) (getCursor_to e) (modal_editor env e)) =
           doc (modal_editor env e)"
  using assms
  by (simp add: editorCallback_status decimal_value doc_setSelection)

theorem api_error_status_witness:
  "\<not> ok sample_response_500
   \<and> notices (editorCallback (sample_env (Some (ascii ''Shorten'')) (Inr sample_response_500))
                (sample_world sample_settings sample_editor))
       = [\<lparr>notice_text = msg_generating, duration = Some 0, hidden = True\<rparr>,
          \<lparr>notice_text = msg_api_error @ ascii ''500'', duration = None, hidden = False\<rparr>]
   \<and> activeView (editorCallback (sample_env (Some (ascii ''Shorten'')) (Inr sample_response_500))
                (sample_world sample_settings sample_editor))
       = Some sample_editor"
proof -
  let ?env = "sample_env (Some (ascii ''Shorten'')) (Inr sample_response_500)"
  let ?w = "sample_world sample_settings sample_editor"
  have "token (settings ?w) \<noteq> []" "agentId (settings ?w) \<noteq> []"
    "activeView ?w = Some sample_editor" "modal_result ?env = Some (ascii ''Shorten'')"
    "ascii ''Shorten'' \<noteq> []" "fetch_result ?env = Inr sample_response_500"
    "\<not> ok sample_response_500"
    by (simp_all add: sample_dispatch sample_response_500_def)
  from api_error_status [OF this]
  have "notices (editorCallback ?env ?w) =
           notices ?w @
           [\<lparr>notice_text = msg_generating, duration = Some 0, hidden = True\<rparr>,
            \<lparr>notice_text = msg_api_error @ decimal (status sample_response_500),
               duration = None, hidden = False\<rparr>]"
    and "activeView (editorCallback ?env ?w) =
           Some (fetch_editor ?env
                   (setSelection (getCursor_from sample_editor) (getCursor_to sample_editor)
                      (modal_editor ?env sample_editor)))"
    by blast+
  moreover have "decimal (status sample_response_500) = ascii ''500''"
    by (simp add: sample_response_500_def decimal.simps ascii_def)
  ultimately show ?thesis
    by (simp add: sample_dispatch sample_selection sample_restored sample_response_500_def)
qed

text \<open>
  C6. Whenever the request fails with a thrown error or is aborted by the 30 second timer
  (the promise of the request rejects, the reading of the body rejects, or the insertion
  throws), the command does not change the text of the document, the in-progress notice
  is hidden and one error notice is shown, whose text mentions the 30 seconds; the error
  itself goes to the console only, so the notices and the editor are the same for a
  network failure and for the abort.
\<close>

theorem request_failure_notice:
  assumes "token (settings w) \<noteq> []" "agentId (settings w) \<noteq> []" "activeView w = Some e"
    and "modal_result env = Some t" "t \<noteq> []"
    and "restored = setSelection (getCursor_from e) (getCursor_to e) (modal_editor env e)"
    and "fetch_result env = Inl err \<and> live = fetch_editor env restored
         \<or> (\<exists>r. fetch_result env = Inr r \<and> ok r
                \<and> live = json_editor env (fetch_editor env restored)
                \<and> (json_body r = Inl err
                    \<or> (\<exists>data. json_body r = Inr data
                          \<and> replaceSelection_value (host_text env) (reply_of data) live
                              = Inl err)))"
  shows "editorCallback env w =
           w\<lparr>modals := modals w @ [if getSelection e \<noteq> [] then placeholder_selection
                                    else placeholder_new_text],
             activeView := Some live,
             notices := notices w @
               [\<lparr>notice_text = msg_generating, duration = Some 0, hidden = True\<rparr>,
                \<lparr>notice_text = msg_request_failed, duration = None, hidden = False\<rparr>],
             requests := requests w @
               [agent_request (settings w)
                  (message (instruction (getSelection e) t) (textToSend (getSelection e) t))
                  (controllers w)],
             controllers := Suc (controllers w),
             timers := timers w @ [\<lparr>delay = 30000, aborts = controllers w, cleared = True\<rparr>],
             console := console w @ [err]\<rparr>
       \<and> doc restored = doc (modal_editor env e)
       \<and> (\<exists>front back. msg_request_failed = front @ ascii ''(30 '' @ back)
       \<and> notices (editorCallback (env\<lparr>fetch_result := Inl NetworkFailure\<rparr>) w) =
           notices (editorCallback (env\<lparr>fetch_result := Inl TimeoutAbort\<rparr>) w)
       \<and> activeView (editorCallback (env\<lparr>fetch_result := Inl NetworkFailure\<rparr>) w) =
           activeView (editorCallback (env\<lparr>fetch_result := Inl TimeoutAbort\<rparr>) w)"
proof -
  let ?req = "agent_request (settings w)
      (message (instruction (getSelection e) t) (textToSend (getSelection e) t)) (controllers w)"
  have caught: "try_block env restored req g w' =
      catch_block err g ((fetch req w')\<lparr>activeView := Some live\<rparr>)" for req g w'
    using assms(7)
    by (auto simp add: try_block_rejected try_block_body_rejected try_block_host_rejected)
  have whole: "editorCallback env w =
           w\<lparr>modals := modals w @ [if getSelection e \<noteq> [] then placeholder_selection
                                    else placeholder_new_text],
             activeView := Some live,
             notices := notices w @
               [\<lparr>notice_text = msg_generating, duration = Some 0, hidden = True\<rparr>,
                \<lparr>notice_text = msg_request_failed, duration = None, hidden = False\<rparr>],
             requests := requests w @ [?req],
             controllers := Suc (controllers w),
             timers := timers w @ [\<lparr>delay = 30000, aborts = controllers w, cleared = True\<rparr>],
             console := console w @ [err]\<rparr>"
    by (rule editorCallback_caught [OF assms(1-5) caught [unfolded assms(6)] refl refl refl])
  have same: "doc restored = doc (modal_editor env e)"
    by (simp add: assms(6) doc_setSelection)
  have "msg_request_failed = take 29 msg_request_failed @ ascii ''(30 '' @ drop 33 msg_request_failed"
    by (simp add: msg_request_failed_def ascii_def)
  then have mention: "\<exists>front back. msg_request_failed = front @ ascii ''(30 '' @ back"
    by (intro exI)
  have rejected: "editorCallback (env\<lparr>fetch_result := Inl x\<rparr>) w =
           w\<lparr>modals := modals w @ [if getSelection e \<noteq> [] then placeholder_selection
                                    else placeholder_new_text],
             activeView := Some (fetch_editor env
                (setSelection (getCursor_from e) (getCursor_to e) (modal_editor env e))),
             notices := notices w @
               [\<lparr>notice_text = msg_generating, duration = Some 0, hidden = True\<rparr>,
                \<lparr>notice_text = msg_request_failed, duration = None, hidden = False\<rparr>],
             requests := requests w @ [?req],
             controllers := Suc (controllers w),
             timers := timers w @ [\<lparr>delay = 30000, aborts = controllers w, cleared = True\<rparr>],
             console := console w @ [x]\<rparr>" for x
  proof -
    let ?env = "env\<lparr>fetch_result := Inl x\<rparr>"
    have pre: "modal_result ?env = Some t" "fetch_result ?env = Inl x"
      using assms(4) by simp_all
    have "try_block ?env
            (setSelection (getCursor_from e) (getCursor_to e) (modal_editor ?env e)) req g w' =
          catch_block x g ((fetch req w')\<lparr>activeView := Some (fetch_editor env
            (setSelection (getCursor_from e) (getCursor_to e) (modal_editor env e)))\<rparr>)"
      for req g w'
      by (simp add: try_block_rejected [OF pre(2)])
    from editorCallback_caught [OF assms(1-3) pre(1) assms(5) this refl refl refl]
    show ?thesis
      by simp
  qed
  have alike: "notices (editorCallback (env\<lparr>fetch_result := Inl NetworkFailure\<rparr>) w) =
           notices (editorCallback (env\<lparr>fetch_result := Inl TimeoutAbort\<rparr>) w)"
    "activeView (editorCallback (env\<lparr>fetch_result := Inl NetworkFailure\<rparr>) w) =
           activeView (editorCallback (env\<lparr>fetch_result := Inl TimeoutAbort\<rparr>) w)"
    by (simp_all add: rejected)
  from whole same mention alike show ?thesis
    by (intro conjI)
qed

theorem request_failure_notice_witness:
  "notices (editorCallback (sample_env (Some (ascii ''Shorten'')) (Inl TimeoutAbort))
              (sample_world sample_settings sample_editor))
     = [\<lparr>notice_text = msg_generating, duration = Some 0, hidden = True\<rparr>,
        \<lparr>notice_text = msg_request_failed, duration = None, hidden = False\<rparr>]
   \<and> activeView (editorCallback (sample_env (Some (ascii ''Shorten'')) (Inl TimeoutAbort))
              (sample_world sample_settings sample_editor))
     = Some sample_editor
   \<and> editorCallback (sample_env (Some (ascii ''Shorten''))
                       (Inr \<lparr>ok = True, status = 200, json_body = Inl TimeoutAbort\<rparr>))
        (sample_world sample_settings sample_editor)
     = editorCallback (sample_env (Some (ascii ''Shorten'')) (Inl TimeoutAbort))
        (sample_world sample_settings sample_editor)
   \<and> editorCallback (sample_env (Some (ascii ''Shorten''))
                       (Inr (sample_response (JObject [(ascii ''message'', JNumber 7)]))))
        (sample_world sample_settings sample_editor)
     = (editorCallback (sample_env (Some (ascii ''Shorten'')) (Inl TimeoutAbort))
         (sample_world sample_settings sample_editor))\<lparr>console := [HostError]\<rparr>"
proof -
  let ?aborted = "Inl TimeoutAbort :: failure + response"
  let ?body_aborted = "Inr \<lparr>ok = True, status = 200, json_body = Inl TimeoutAbort\<rparr>
                       :: failure + response"
  let ?number = "Inr (sample_response (JObject [(ascii ''message'', JNumber 7)]))
                 :: failure + response"
  let ?env = "\<lambda>outcome. sample_env (Some (ascii ''Shorten'')) outcome"
  let ?w = "sample_world sample_settings sample_editor"
  have pre: "token (settings ?w) \<noteq> []" "agentId (settings ?w) \<noteq> []"
    "activeView ?w = Some sample_editor" "modal_result (?env outcome) = Some (ascii ''Shorten'')"
    "ascii ''Shorten'' \<noteq> []"
    "sample_editor = setSelection (getCursor_from sample_editor) (getCursor_to sample_editor)
                       (modal_editor (?env outcome) sample_editor)" for outcome
    by (simp_all add: sample_dispatch sample_selection sample_restored)
  have one: "fetch_result (?env ?aborted) = Inl TimeoutAbort
        \<and> sample_editor = fetch_editor (?env ?aborted) sample_editor
      \<or> (\<exists>r. fetch_result (?env ?aborted) = Inr r \<and> ok r
            \<and> sample_editor = json_editor (?env ?aborted) (fetch_editor (?env ?aborted) sample_editor)
            \<and> (json_body r = Inl TimeoutAbort
                \<or> (\<exists>data. json_body r = Inr data
                      \<and> replaceSelection_value (host_text (?env ?aborted)) (reply_of data)
                           sample_editor = Inl TimeoutAbort)))"
    by (simp add: sample_dispatch)
  have two: "fetch_result (?env ?body_aborted) = Inl TimeoutAbort
        \<and> sample_editor = fetch_editor (?env ?body_aborted) sample_editor
      \<or> (\<exists>r. fetch_result (?env ?body_aborted) = Inr r \<and> ok r
            \<and> sample_editor = json_editor (?env ?body_aborted)
                                 (fetch_editor (?env ?body_aborted) sample_editor)
            \<and> (json_body r = Inl TimeoutAbort
                \<or> (\<exists>data. json_body r = Inr data
                      \<and> replaceSelection_value (host_text (?env ?body_aborted)) (reply_of data)
                           sample_editor = Inl TimeoutAbort)))"
    by (simp add: sample_dispatch)
  have three: "fetch_result (?env ?number) = Inl HostError
        \<and> sample_editor = fetch_editor (?env ?number) sample_editor
      \<or> (\<exists>r. fetch_result (?env ?number) = Inr r \<and> ok r
            \<and> sample_editor = json_editor (?env ?number) (fetch_editor (?env ?number) sample_editor)
            \<and> (json_body r = Inl HostError
                \<or> (\<exists>data. json_body r = Inr data
                      \<and> replaceSelection_value (host_text (?env ?number)) (reply_of data)
                           sample_editor = Inl HostError)))"
    by (simp add: sample_dispatch sample_response_def reply_of_def replaceSelection_value_def
        ascii_def)
  note runs = request_failure_notice [OF pre one, THEN conjunct1]
    request_failure_notice [OF pre two, THEN conjunct1]
    request_failure_notice [OF pre three, THEN conjunct1]
  show ?thesis
    by (simp add: runs sample_dispatch)
qed




text \<open>
  A message field holding the empty string. The reply is the empty string and not the
  fallback string: the fallback stands in only for a field that is absent or null, and
  any other value of the field is the reply as it is. The selection of the editor as it
  is when the reply arrives is replaced with the empty string, which deletes it. When the
  editor was not changed while the request was pending, that selection is the captured
  range: the captured positions, read in the text as the modal left it, and, when the
  modal left the text alone, the offsets that were selected when the command was invoked.
\<close>

theorem empty_message_deletes_selection:
  assumes "token (settings w) \<noteq> []" "agentId (settings w) \<noteq> []" "activeView w = Some e"
    and "modal_result env = Some t" "t \<noteq> []"
    and "fetch_result env = Inr r" "ok r" "json_body r = Inr data"
    and "get_message data = Some (JString [])"
    and "restored = setSelection (getCursor_from e) (getCursor_to e) (modal_editor env e)"
    and "live = json_editor env (fetch_editor env restored)"
  shows "reply_of data = JString [] \<and> reply_of data \<noteq> JString msg_no_reply
       \<and> activeView (editorCallback env w) = Some (replaceSelection [] live)
       \<and> notices (editorCallback env w) =
           notices w @
           [\<lparr>notice_text = msg_generating, duration = Some 0, hidden = True\<rparr>,
            \<lparr>notice_text = msg_inserted, duration = Some 3000, hidden = False\<rparr>]
       \<and> doc (replaceSelection [] live) =
           take (min (sel_anchor live) (sel_head live)) (doc live)
             @ drop (max (sel_anchor live) (sel_head live)) (doc live)
       \<and> (live = restored \<longrightarrow>
            doc (replaceSelection [] live) =
              take (min (posToOffset (doc (modal_editor env e)) (getCursor_from e))
                        (posToOffset (doc (modal_editor env e)) (getCursor_to e)))
                   (doc (modal_editor env e))
              @ drop (max (posToOffset (doc (modal_editor env e)) (getCursor_from e))
                          (posToOffset (doc (modal_editor env e)) (getCursor_to e)))
                     (doc (modal_editor env e)))
       \<and> (live = restored \<and> doc (modal_editor env e) = doc e \<longrightarrow>
            doc (replaceSelection [] live) =
              take (min (sel_anchor e) (sel_head e)) (doc e)
                @ drop (max (sel_anchor e) (sel_head e)) (doc e))
       \<and> (\<forall>d v. get_message d = Some v \<and> v \<noteq> JNull \<longrightarrow> reply_of d = v)
       \<and> (\<forall>d. get_message d = None \<or> get_message d = Some JNull
                \<longrightarrow> reply_of d = JString msg_no_reply)"
proof -
  from assms(9) have reply: "reply_of data = JString []"
    by (rule reply_of_message)
  have "msg_no_reply \<noteq> []"
    by (simp add: msg_no_reply_def)
  with reply have differs: "reply_of data \<noteq> JString msg_no_reply"
    by simp
  have "replaceSelection_value (host_text env) (reply_of data)
          (json_editor env (fetch_editor env
             (setSelection (getCursor_from e) (getCursor_to e) (modal_editor env e))))
        = Inr (replaceSelection [] live)"
    by (simp add: reply replaceSelection_value_def assms(10,11))
  note whole = editorCallback_inserted [OF assms(1-8) this]
  have view: "activeView (editorCallback env w) = Some (replaceSelection [] live)"
    and shown: "notices (editorCallback env w) =
           notices w @
           [\<lparr>notice_text = msg_generating, duration = Some 0, hidden = True\<rparr>,
            \<lparr>notice_text = msg_inserted, duration = Some 3000, hidden = False\<rparr>]"
    by (simp_all add: whole)
  have a: "doc (replaceSelection [] live) =
           take (min (sel_anchor live) (sel_head live)) (doc live)
             @ drop (max (sel_anchor live) (sel_head live)) (doc live)"
    by (simp add: doc_replaceSelection)
  have b: "live = restored \<longrightarrow>
            doc (replaceSelection [] live) =
              take (min (posToOffset (doc (modal_editor env e)) (getCursor_from e))
                        (posToOffset (doc (modal_editor env e)) (getCursor_to e)))
                   (doc (modal_editor env e))
              @ drop (max (posToOffset (doc (modal_editor env e)) (getCursor_from e))
                          (posToOffset (doc (modal_editor env e)) (getCursor_to e)))
                     (doc (modal_editor env e))"
    by (simp add: assms(10) doc_replace_restored)
  have c: "live = restored \<and> doc (modal_editor env e) = doc e \<longrightarrow>
            doc (replaceSelection [] live) =
              take (min (sel_anchor e) (sel_head e)) (doc e)
                @ drop (max (sel_anchor e) (sel_head e)) (doc e)"
    by (simp add: assms(10) doc_replace_restored_same_text)
  have all: "\<forall>d v. get_message d = Some v \<and> v \<noteq> JNull \<longrightarrow> reply_of d = v"
    "\<forall>d. get_message d = None \<or> get_message d = Some JNull \<longrightarrow> reply_of d = JString msg_no_reply"
    by (auto simp add: reply_of_message)
  from reply differs view shown a b c all show ?thesis
    by (intro conjI)
qed

theorem empty_message_deletes_selection_witness:
  "get_message (JObject [(ascii ''message'', JString [])]) = Some (JString [])
   \<and> activeView (editorCallback
        (sample_env (Some (ascii ''Shorten''))
           (Inr (sample_response (JObject [(ascii ''message'', JString [])]))))
        (sample_world sample_settings sample_editor))
       = Some \<lparr>doc = ascii ''Hello '', sel_anchor = 6, sel_head = 6\<rparr>
   \<and> reply_of (JObject [(ascii ''message'', JNumber 7)]) = JNumber 7
   \<and> reply_of (JObject [(ascii ''text'', JString (ascii ''Hola''))]) = JString msg_no_reply"
proof -
  let ?data = "JObject [(ascii ''message'', JString [])]"
  let ?env = "sample_env (Some (ascii ''Shorten'')) (Inr (sample_response ?data))"
  let ?w = "sample_world sample_settings sample_editor"
  have "token (settings ?w) \<noteq> []" "agentId (settings ?w) \<noteq> []"
    "activeView ?w = Some sample_editor" "modal_result ?env = Some (ascii ''Shorten'')"
    "ascii ''Shorten'' \<noteq> []" "fetch_result ?env = Inr (sample_response ?data)"
    "ok (sample_response ?data)" "json_body (sample_response ?data) = Inr ?data"
    "get_message ?data = Some (JString [])"
    "sample_editor = setSelection (getCursor_from sample_editor) (getCursor_to sample_editor)
                       (modal_editor ?env sample_editor)"
    "sample_editor = json_editor ?env (fetch_editor ?env sample_editor)"
    by (simp_all add: sample_dispatch sample_response_def sample_selection sample_restored)
  note main = empty_message_deletes_selection [OF this]
  from main have "activeView (editorCallback ?env ?w) = Some (replaceSelection [] sample_editor)"
    by blast
  moreover from main have "\<forall>d v. get_message d = Some v \<and> v \<noteq> JNull \<longrightarrow> reply_of d = v"
    by blast
  then have "reply_of (JObject [(ascii ''message'', JNumber 7)]) = JNumber 7"
    by simp
  moreover from main have "\<forall>d. get_message d = None \<or> get_message d = Some JNull
                \<longrightarrow> reply_of d = JString msg_no_reply"
    by blast
  then have "reply_of (JObject [(ascii ''text'', JString (ascii ''Hola''))]) = JString msg_no_reply"
    by (simp add: ascii_def)
  ultimately show ?thesis
    by (simp add: sample_edits)
qed

text \<open>
  C10. When the body of a successful response has a message field holding the empty
  string, the previously selected range is replaced with the empty string, and not with
  the fallback string. The source says so too: it saves the positions of the selection, and
  its comment at the insertion reads "insert the reply at the saved place"; it restores
  the saved selection after the wait for the modal, but not after the wait for the
  request. So where the user selects other text, "Hello", while the request is pending,
  the empty reply deletes that text, and the range selected before, the word "world", is
  still in the document.
\<close>

theorem empty_message_pending_selection:
  "getSelection sample_editor = ascii ''world''
   \<and> get_message (JObject [(ascii ''message'', JString [])]) = Some (JString [])
   \<and> activeView (editorCallback
        ((sample_env (Some (ascii ''Shorten''))
            (Inr (sample_response (JObject [(ascii ''message'', JString [])]))))
           \<lparr>fetch_editor := select_hello\<rparr>)
        (sample_world sample_settings sample_editor))
       = Some \<lparr>doc = ascii '' world'', sel_anchor = 0, sel_head = 0\<rparr>"
proof -
  have "reply_of (JObject [(ascii ''message'', JString [])]) = JString []"
    by (simp add: reply_of_message)
  note run = sample_inserted [OF refl this]
  show ?thesis
    by (simp add: run sample_selection sample_edits)
qed

end
